theory Spec2Isabelle
  imports Main "HOL-Library.AList"
begin

section \<open>The settings modal: pending-change buffers and the effective view\<close>

text \<open>
  The component \<open>SettingsModalV2\<close> keeps two buffers of unsaved edits
  (\<open>pendingAppChanges\<close>, \<open>pendingProjectChanges\<close>), shows per setting a value
  (\<open>getEffective\<close>) and a source badge (\<open>getSource\<close>) computed from the last fetched
  effective-settings snapshot, and writes to the settings store through three mutations.
  The component's hook state is an explicit record here; every handler takes the state and
  returns the next one. A JavaScript object used as a dictionary is an association list in
  insertion order: \<open>key in obj\<close> is \<open>map_of obj key \<noteq> None\<close>, \<open>obj[key] = value\<close> is
  \<open>AList.update key value obj\<close> and \<open>delete obj[key]\<close> is \<open>AList.delete key obj\<close>. This is
  the lookup of own properties. For the names that every object inherits from
  \<open>Object.prototype\<close> (\<open>Object_prototype_names\<close> below) JavaScript finds the inherited member
  in any object, also in \<open>{}\<close>, so the own-entry lookup is exact only for the other keys,
  which include every setting name; a statement about an arbitrary key excludes these names.
\<close>

subsection \<open>Data\<close>

type_synonym key = string

text \<open>\<open>AppSettingsV2Update\<close> and \<open>ProjectSettingsV2Update\<close>: partial settings objects.\<close>

type_synonym 'v settings_update = "(key \<times> 'v) list"

text \<open>Setting values as they occur in the component: toggles, small counts, model ids, \<open>null\<close>.\<close>

datatype jsval = JBool bool | JNum int | JStr string | JNull

text \<open>\<open>type SettingSource = 'project' | 'app' | 'default'\<close>\<close>

datatype SettingSource = SrcProject | SrcApp | SrcDefault

text \<open>
  The data of the effective-settings query. Both fields are read with optional chaining
  (\<open>effectiveSettings?.sources?.[key]\<close>), so each may be missing.
\<close>

record 'v EffectiveSettingsV2 =
  settings :: "(key \<times> 'v) list option"
  sources :: "(key \<times> SettingSource) list option"

text \<open>The status of a mutation of the query library, of which the component reads
  \<open>isPending\<close> and \<open>isSuccess\<close>.\<close>

datatype mutation_status = Idle | Pending | Success | Failed

text \<open>The requests the component sends to the settings store (the \<open>mutationFn\<close>s).\<close>

datatype 'v store_call =
    UpdateAppSettingsV2 "'v settings_update"
  | UpdateProjectSettingsV2 string "'v settings_update"
  | ClearProjectSettingV2 string key

datatype error = UnknownKeyError | Unavailable | StoreWriteError

record 'v modal =
  isOpen :: bool
  projectName :: "string option"
  effectiveSettings :: "'v EffectiveSettingsV2 option"
  pendingAppChanges :: "'v settings_update"
  pendingProjectChanges :: "'v settings_update"
  updateApp_status :: mutation_status
  updateProject_status :: mutation_status
  store_calls :: "'v store_call list"

text \<open>The state after mounting: both \<open>useState\<close> buffers start as \<open>{}\<close>, no mutation has
  run and no request has been sent.\<close>

definition mounted :: "bool \<Rightarrow> string option \<Rightarrow> 'v EffectiveSettingsV2 option \<Rightarrow> 'v modal" where
  "mounted opn pname snapshot =
     \<lparr>isOpen = opn, projectName = pname, effectiveSettings = snapshot,
      pendingAppChanges = [], pendingProjectChanges = [],
      updateApp_status = Idle, updateProject_status = Idle, store_calls = []\<rparr>"

definition UI_ONLY_SETTINGS :: "key list" where
  "UI_ONLY_SETTINGS =
     [''showDebugPanel'', ''celebrateOnComplete'', ''theme'', ''darkMode'',
      ''debugPanelHeight'', ''kanbanColumns'']"

text \<open>
  The property names of \<open>Object.prototype\<close> (ECMAScript, with the legacy accessors of its
  Annex B). For such a name \<open>key in obj\<close> is true and \<open>obj[key]\<close> is the inherited member for
  every plain object, whatever its own entries.
\<close>

definition Object_prototype_names :: "key list" where
  "Object_prototype_names =
     [''constructor'', ''hasOwnProperty'', ''isPrototypeOf'', ''propertyIsEnumerable'',
      ''toLocaleString'', ''toString'', ''valueOf'', ''__proto__'',
      ''__defineGetter__'', ''__defineSetter__'', ''__lookupGetter__'', ''__lookupSetter__'']"

subsection \<open>Derived values of a render\<close>

definition isSaving :: "'v modal \<Rightarrow> bool" where
  "isSaving s = (updateApp_status s = Pending \<or> updateProject_status s = Pending)"

definition hasUnsavedAppChanges :: "'v modal \<Rightarrow> bool" where
  "hasUnsavedAppChanges s = (length (map fst (pendingAppChanges s)) > 0)"

definition hasUnsavedProjectChanges :: "'v modal \<Rightarrow> bool" where
  "hasUnsavedProjectChanges s = (length (map fst (pendingProjectChanges s)) > 0)"

definition hasUnsavedChanges :: "'v modal \<Rightarrow> bool" where
  "hasUnsavedChanges s = (hasUnsavedAppChanges s \<or> hasUnsavedProjectChanges s)"

text \<open>\<open>!projectName\<close>: the prop is \<open>null\<close> or the empty string.\<close>

definition no_project :: "'v modal \<Rightarrow> bool" where
  "no_project s = (case projectName s of None \<Rightarrow> True | Some n \<Rightarrow> n = [])"

subsection \<open>Source badge and effective value\<close>

text \<open>
  \<open>getSource\<close> is \<open>effectiveSettings?.sources?.[key] || 'default'\<close>: the snapshot's source
  of the key, or \<open>'default'\<close> where the snapshot, its \<open>sources\<close> or the entry is missing
  (\<open>None\<close> is \<open>undefined\<close>; the three source names are truthy). It reads neither buffer.
  The lookup is exact for keys outside \<open>Object_prototype_names\<close>; for a name in that list
  \<open>sources[key]\<close> is the inherited member, which is truthy, and the code returns it.
\<close>

definition snapshot_source :: "'v modal \<Rightarrow> key \<Rightarrow> SettingSource option" where
  "snapshot_source s key =
     (case effectiveSettings s of
        None \<Rightarrow> None
      | Some e \<Rightarrow> (case sources e of None \<Rightarrow> None | Some m \<Rightarrow> map_of m key))"

definition getSource :: "'v modal \<Rightarrow> key \<Rightarrow> SettingSource" where
  "getSource s key =
     (case snapshot_source s key of None \<Rightarrow> SrcDefault | Some src \<Rightarrow> src)"

text \<open>\<open>effectiveSettings?.settings?.[key]\<close>; \<open>None\<close> is \<open>undefined\<close>.\<close>

definition snapshot_value :: "'v modal \<Rightarrow> key \<Rightarrow> 'v option" where
  "snapshot_value s key =
     (case effectiveSettings s of
        None \<Rightarrow> None
      | Some e \<Rightarrow> (case settings e of None \<Rightarrow> None | Some m \<Rightarrow> map_of m key))"

text \<open>
  \<open>getEffective\<close>: the app-scope buffer is looked up first, then the project-scope
  buffer, then the snapshot; the caller's fallback is returned where all three miss.
  The lookups are exact for keys outside \<open>Object_prototype_names\<close>; for a name in that list
  \<open>key in pendingAppChanges\<close> is true and the code returns the inherited member.
\<close>

definition getEffective :: "'v modal \<Rightarrow> key \<Rightarrow> 'v \<Rightarrow> 'v" where
  "getEffective s key fallback =
     (case map_of (pendingAppChanges s) key of
        Some v \<Rightarrow> v
      | None \<Rightarrow>
          (case map_of (pendingProjectChanges s) key of
             Some v \<Rightarrow> v
           | None \<Rightarrow>
               (case snapshot_value s key of Some v \<Rightarrow> v | None \<Rightarrow> fallback)))"

text \<open>
  What a row of the project tab shows for a key: the value of \<open>getEffective\<close> and the
  badge of \<open>getSource\<close>. Neither function has a \<open>throw\<close>, so the result is always \<open>Inr\<close>.
\<close>

definition effectiveView :: "'v modal \<Rightarrow> key \<Rightarrow> 'v \<Rightarrow> error + ('v \<times> SettingSource)" where
  "effectiveView s key fallback = Inr (getEffective s key fallback, getSource s key)"

subsection \<open>Handlers\<close>

text \<open>\<open>updateApp.mutate(payload)\<close>: the request is sent and the mutation is pending until
  it settles.\<close>

definition updateApp_mutate :: "'v settings_update \<Rightarrow> 'v modal \<Rightarrow> 'v modal" where
  "updateApp_mutate payload s =
     s\<lparr>store_calls := store_calls s @ [UpdateAppSettingsV2 payload],
       updateApp_status := Pending\<rparr>"

text \<open>The loop of \<open>handleAppChange\<close> over \<open>Object.entries(update)\<close>, with the two
  accumulators \<open>uiChanges\<close> and \<open>agentChanges\<close>.\<close>

fun partition_changes ::
  "'v settings_update \<Rightarrow> 'v settings_update \<times> 'v settings_update
    \<Rightarrow> 'v settings_update \<times> 'v settings_update" where
  "partition_changes [] (uiChanges, agentChanges) = (uiChanges, agentChanges)"
| "partition_changes ((key, v) # rest) (uiChanges, agentChanges) =
     (if key \<in> set UI_ONLY_SETTINGS
      then partition_changes rest (AList.update key v uiChanges, agentChanges)
      else partition_changes rest (uiChanges, AList.update key v agentChanges))"

text \<open>\<open>{ ...prev, ...changes }\<close>\<close>

definition spread :: "'v settings_update \<Rightarrow> 'v settings_update \<Rightarrow> 'v settings_update" where
  "spread prev changes = fold (\<lambda>(key, v). AList.update key v) changes prev"

definition handleAppChange :: "'v settings_update \<Rightarrow> 'v modal \<Rightarrow> 'v modal" where
  "handleAppChange upd s =
     (if isSaving s then s
      else
        (case partition_changes upd ([], []) of
           (uiChanges, agentChanges) \<Rightarrow>
             (let s1 = (if length (map fst uiChanges) > 0
                        then updateApp_mutate uiChanges s else s)
              in if length (map fst agentChanges) > 0
                 then s1\<lparr>pendingAppChanges := spread (pendingAppChanges s1) agentChanges\<rparr>
                 else s1)))"

definition handleProjectChange :: "'v settings_update \<Rightarrow> 'v modal \<Rightarrow> 'v modal" where
  "handleProjectChange upd s =
     (if isSaving s \<or> no_project s then s
      else s\<lparr>pendingProjectChanges := spread (pendingProjectChanges s) upd\<rparr>)"

text \<open>
  \<open>handleSave\<close> awaits up to two requests. Whether the store accepts each one is the
  environment's choice, given as \<open>save_outcomes\<close>; a rejected \<open>mutateAsync\<close> throws, which
  ends the handler with the state as it is at that point.
\<close>

record save_outcomes =
  updateApp_ok :: bool
  updateProject_ok :: bool

definition updateApp_mutateAsync :: "bool \<Rightarrow> 'v settings_update \<Rightarrow> 'v modal \<Rightarrow> 'v modal" where
  "updateApp_mutateAsync ok payload s =
     s\<lparr>store_calls := store_calls s @ [UpdateAppSettingsV2 payload],
       updateApp_status := (if ok then Success else Failed)\<rparr>"

definition updateProject_mutateAsync ::
  "bool \<Rightarrow> string \<Rightarrow> 'v settings_update \<Rightarrow> 'v modal \<Rightarrow> 'v modal" where
  "updateProject_mutateAsync ok pname payload s =
     s\<lparr>store_calls := store_calls s @ [UpdateProjectSettingsV2 pname payload],
       updateProject_status := (if ok then Success else Failed)\<rparr>"

text \<open>The second \<open>if\<close> of \<open>handleSave\<close>. The first one leaves the project-scope buffer and
  the project name as the handler's closure has them, so they are read from the state.\<close>

definition save_project :: "bool \<Rightarrow> 'v modal \<Rightarrow> error option \<times> 'v modal" where
  "save_project ok s =
     (if hasUnsavedProjectChanges s \<and> \<not> no_project s
      then
        (case projectName s of
           None \<Rightarrow> (None, s)
         | Some pname \<Rightarrow>
             (let s1 = updateProject_mutateAsync ok pname (pendingProjectChanges s) s
              in if ok then (None, s1\<lparr>pendingProjectChanges := []\<rparr>)
                 else (Some StoreWriteError, s1)))
      else (None, s))"

definition handleSave :: "save_outcomes \<Rightarrow> 'v modal \<Rightarrow> error option \<times> 'v modal" where
  "handleSave env s =
     (if hasUnsavedAppChanges s
      then
        (let s1 = updateApp_mutateAsync (updateApp_ok env) (pendingAppChanges s) s
         in if updateApp_ok env
            then save_project (updateProject_ok env) (s1\<lparr>pendingAppChanges := []\<rparr>)
            else (Some StoreWriteError, s1))
      else save_project (updateProject_ok env) s)"

definition handleCancel :: "'v modal \<Rightarrow> 'v modal" where
  "handleCancel s = s\<lparr>pendingAppChanges := [], pendingProjectChanges := []\<rparr>"

definition handleResetProjectSetting :: "key \<Rightarrow> 'v modal \<Rightarrow> 'v modal" where
  "handleResetProjectSetting key s =
     (if no_project s then s
      else
        (case projectName s of
           None \<Rightarrow> s
         | Some pname \<Rightarrow>
             s\<lparr>pendingProjectChanges := AList.delete key (pendingProjectChanges s),
               store_calls := store_calls s @ [ClearProjectSettingV2 pname key]\<rparr>))"

text \<open>The effect with dependency \<open>[isOpen]\<close>, and the parent changing the \<open>isOpen\<close> prop:
  the effect runs when the prop's value changes.\<close>

definition isOpen_effect :: "'v modal \<Rightarrow> 'v modal" where
  "isOpen_effect s =
     (if \<not> isOpen s then s\<lparr>pendingAppChanges := [], pendingProjectChanges := []\<rparr> else s)"

definition setIsOpen :: "bool \<Rightarrow> 'v modal \<Rightarrow> 'v modal" where
  "setIsOpen b s = (if isOpen s = b then s else isOpen_effect (s\<lparr>isOpen := b\<rparr>))"

text \<open>Two transitions of the query library: a pending \<open>updateApp.mutate\<close> settles, and
  the effective-settings query delivers new data.\<close>

definition updateApp_settled :: "bool \<Rightarrow> 'v modal \<Rightarrow> 'v modal" where
  "updateApp_settled ok s =
     (if updateApp_status s = Pending
      then s\<lparr>updateApp_status := (if ok then Success else Failed)\<rparr> else s)"

definition refetched :: "'v EffectiveSettingsV2 option \<Rightarrow> 'v modal \<Rightarrow> 'v modal" where
  "refetched snapshot s = s\<lparr>effectiveSettings := snapshot\<rparr>"

subsection \<open>Runs of the component\<close>

datatype 'v event =
    AppChange "'v settings_update"
  | ProjectChange "'v settings_update"
  | Save save_outcomes
  | Cancel
  | SetIsOpen bool
  | ResetProjectSetting key
  | UpdateAppSettled bool
  | Refetched "'v EffectiveSettingsV2 option"

fun step :: "'v event \<Rightarrow> 'v modal \<Rightarrow> 'v modal" where
  "step (AppChange upd) s = handleAppChange upd s"
| "step (ProjectChange upd) s = handleProjectChange upd s"
| "step (Save env) s = snd (handleSave env s)"
| "step Cancel s = handleCancel s"
| "step (SetIsOpen b) s = setIsOpen b s"
| "step (ResetProjectSetting key) s = handleResetProjectSetting key s"
| "step (UpdateAppSettled ok) s = updateApp_settled ok s"
| "step (Refetched snapshot) s = refetched snapshot s"

fun run :: "'v event list \<Rightarrow> 'v modal \<Rightarrow> 'v modal" where
  "run [] s = s"
| "run (e # es) s = run es (step e s)"


text \<open>The keys of a buffer, and the buffers that hold agent keys only.\<close>

definition keys_of :: "'v settings_update \<Rightarrow> key set" where
  "keys_of obj = fst ` set obj"

definition agent_only :: "'v settings_update \<Rightarrow> bool" where
  "agent_only obj = list_all (\<lambda>(key, v). key \<notin> set UI_ONLY_SETTINGS) obj"

subsection \<open>Concrete states\<close>

text \<open>A snapshot in which the app supplies \<open>yoloMode = false\<close>, and the modal opened on a
  project with it.\<close>

definition snapshot0 :: "jsval EffectiveSettingsV2" where
  "snapshot0 =
     \<lparr>settings = Some [(''yoloMode'', JBool False), (''testingAgentRatio'', JNum 1)],
      sources = Some [(''yoloMode'', SrcApp), (''testingAgentRatio'', SrcDefault)]\<rparr>"

definition modal0 :: "jsval modal" where
  "modal0 = mounted True (Some ''demo'') (Some snapshot0)"

text \<open>The modal opened before any snapshot has arrived.\<close>

definition modal_loading :: "jsval modal" where
  "modal_loading = mounted True (Some ''demo'') None"

text \<open>The modal right after a UI-only edit, whose request has not settled yet.\<close>

definition modal_saving :: "jsval modal" where
  "modal_saving = handleAppChange [(''celebrateOnComplete'', JBool False)] modal0"

section \<open>Properties\<close>

subsection \<open>Unfolding the component on concrete states\<close>

lemmas modal_defs =
  modal0_def modal_loading_def modal_saving_def mounted_def snapshot0_def
  handleAppChange_def handleProjectChange_def handleCancel_def handleSave_def save_project_def
  updateApp_mutate_def updateApp_mutateAsync_def updateProject_mutateAsync_def
  isSaving_def no_project_def spread_def UI_ONLY_SETTINGS_def
  hasUnsavedChanges_def hasUnsavedAppChanges_def hasUnsavedProjectChanges_def
  setIsOpen_def isOpen_effect_def

lemmas view_defs =
  effectiveView_def getEffective_def getSource_def snapshot_value_def snapshot_source_def

subsection \<open>Buffers hold agent keys only\<close>

lemma agent_only_update:
  "key \<notin> set UI_ONLY_SETTINGS \<Longrightarrow> agent_only obj \<Longrightarrow> agent_only (AList.update key v obj)"
  by (induction obj) (auto simp: agent_only_def)

lemma agent_only_spread:
  "agent_only changes \<Longrightarrow> agent_only prev \<Longrightarrow> agent_only (spread prev changes)"
  unfolding spread_def
proof (induction changes arbitrary: prev)
  case Nil
  then show ?case by simp
next
  case (Cons c changes)
  obtain k v where c: "c = (k, v)" by (cases c)
  from Cons.prems c have k: "k \<notin> set UI_ONLY_SETTINGS" and rest: "agent_only changes"
    by (simp_all add: agent_only_def)
  have "agent_only (AList.update k v prev)"
    using k Cons.prems(2) by (rule agent_only_update)
  with Cons.IH [OF rest] show ?case by (simp add: c)
qed

lemma agent_only_keys: "agent_only obj \<longleftrightarrow> keys_of obj \<inter> set UI_ONLY_SETTINGS = {}"
  by (induction obj) (auto simp: agent_only_def keys_of_def)

lemma partition_changes_agent_only:
  "agent_only agentChanges \<Longrightarrow> agent_only (snd (partition_changes upd (uiChanges, agentChanges)))"
  by (induction upd "(uiChanges, agentChanges)" arbitrary: uiChanges agentChanges
      rule: partition_changes.induct) (auto simp: agent_only_update)


lemma agent_only_Nil: "agent_only []"
  by (simp add: agent_only_def)

lemma handleAppChange_agent_only:
  assumes "agent_only (pendingAppChanges s)"
  shows "agent_only (pendingAppChanges (handleAppChange upd s))"
proof -
  obtain ui ag where part: "partition_changes upd ([], []) = (ui, ag)"
    by (cases "partition_changes upd ([], [])")
  from partition_changes_agent_only [OF agent_only_Nil, of upd "[]"] part
  have ag: "agent_only ag" by simp
  from agent_only_spread [OF ag assms]
  have "agent_only (spread (pendingAppChanges s) ag)" .
  with assms part show ?thesis
    by (simp add: handleAppChange_def updateApp_mutate_def)
qed

lemma save_project_app_buffer:
  "pendingAppChanges (snd (save_project ok s)) = pendingAppChanges s"
  by (simp add: save_project_def updateProject_mutateAsync_def split: option.splits)

lemma handleSave_agent_only:
  assumes "agent_only (pendingAppChanges s)"
  shows "agent_only (pendingAppChanges (snd (handleSave env s)))"
  using assms
  by (simp add: handleSave_def save_project_app_buffer updateApp_mutateAsync_def agent_only_Nil)

lemma step_agent_only:
  assumes "agent_only (pendingAppChanges s)"
  shows "agent_only (pendingAppChanges (step e s))"
proof (cases e)
  case (AppChange upd)
  with handleAppChange_agent_only [OF assms] show ?thesis by simp
next
  case (ProjectChange upd)
  with assms show ?thesis by (simp add: handleProjectChange_def)
next
  case (Save env)
  with handleSave_agent_only [OF assms] show ?thesis by simp
next
  case Cancel
  then show ?thesis by (simp add: handleCancel_def agent_only_Nil)
next
  case (SetIsOpen b)
  with assms show ?thesis by (simp add: setIsOpen_def isOpen_effect_def agent_only_Nil)
next
  case (ResetProjectSetting key)
  with assms show ?thesis
    by (simp add: handleResetProjectSetting_def split: option.splits)
next
  case (UpdateAppSettled ok)
  with assms show ?thesis by (simp add: updateApp_settled_def)
next
  case (Refetched snapshot)
  with assms show ?thesis by (simp add: refetched_def)
qed

lemma run_agent_only:
  "agent_only (pendingAppChanges s) \<Longrightarrow> agent_only (pendingAppChanges (run es s))"
  by (induction es arbitrary: s) (simp_all add: step_agent_only)

lemma partition_single_ui:
  "key \<in> set UI_ONLY_SETTINGS \<Longrightarrow> partition_changes [(key, v)] ([], []) = ([(key, v)], [])"
  by simp

subsection \<open>The effective view\<close>

text \<open>
  Claim C1, as the code has it. A key that has a pending project-scope edit and no pending
  app-scope edit is shown with the buffered value. Its source badge is not forced to
  \<open>'project'\<close>: it is the source recorded in the last fetched snapshot (\<open>'default'\<close> where
  there is none), the same as with both buffers empty.
\<close>

theorem project_edit_shown_with_snapshot_source:
  assumes "map_of (pendingProjectChanges s) key = Some v"
    and "map_of (pendingAppChanges s) key = None"
  shows "effectiveView s key fallback =
           Inr (v, getSource (s\<lparr>pendingAppChanges := [], pendingProjectChanges := []\<rparr>) key)"
  using assms by (simp add: view_defs)

text \<open>
  The theorem after \<open>handleProjectChange({ yoloMode: true })\<close> on a modal whose snapshot
  has \<open>yoloMode = false\<close> from the app: the row shows \<open>true\<close> with the badge \<open>'app'\<close>.
\<close>

theorem project_edit_shown_with_snapshot_source_witness:
  "map_of (pendingProjectChanges (handleProjectChange [(''yoloMode'', JBool True)] modal0))
     ''yoloMode'' = Some (JBool True) \<and>
   map_of (pendingAppChanges (handleProjectChange [(''yoloMode'', JBool True)] modal0))
     ''yoloMode'' = None \<and>
   effectiveView (handleProjectChange [(''yoloMode'', JBool True)] modal0)
     ''yoloMode'' (JBool False) = Inr (JBool True, SrcApp)"
proof -
  let ?s = "handleProjectChange [(''yoloMode'', JBool True)] modal0"
  have h1: "map_of (pendingProjectChanges ?s) ''yoloMode'' = Some (JBool True)"
    by (simp add: modal_defs)
  have h2: "map_of (pendingAppChanges ?s) ''yoloMode'' = None"
    by (simp add: modal_defs)
  have src: "getSource (?s\<lparr>pendingAppChanges := [], pendingProjectChanges := []\<rparr>) ''yoloMode''
               = SrcApp"
    by (simp add: modal_defs view_defs)
  from project_edit_shown_with_snapshot_source [OF h1 h2, of "JBool False"] src h1 h2
  show ?thesis by simp
qed

text \<open>
  The claim as written asks for the badge \<open>'project'\<close> there. The key is in the
  project-scope buffer, and the badge is \<open>'app'\<close>.
\<close>

theorem project_edit_source_not_project:
  "map_of (pendingProjectChanges (handleProjectChange [(''yoloMode'', JBool True)] modal0))
     ''yoloMode'' = Some (JBool True) \<and>
   getSource (handleProjectChange [(''yoloMode'', JBool True)] modal0) ''yoloMode'' = SrcApp \<and>
   effectiveView (handleProjectChange [(''yoloMode'', JBool True)] modal0)
     ''yoloMode'' (JBool False) \<noteq> Inr (JBool True, SrcProject)"
  by (simp add: modal_defs view_defs)

text \<open>
  Claim C2. With \<open>yoloMode\<close> pending in both buffers (an app-scope edit to \<open>false\<close>, then a
  project-scope edit to \<open>true\<close>), \<open>getEffective\<close> returns the app-scope value \<open>false\<close>: the
  app-scope buffer is looked up first. The project tab, which states that project settings
  override app settings, therefore does not show the project-scope edit.
\<close>

theorem app_buffer_shadows_project_buffer:
  "pendingAppChanges
     (run [AppChange [(''yoloMode'', JBool False)], ProjectChange [(''yoloMode'', JBool True)]]
        modal0) = [(''yoloMode'', JBool False)] \<and>
   pendingProjectChanges
     (run [AppChange [(''yoloMode'', JBool False)], ProjectChange [(''yoloMode'', JBool True)]]
        modal0) = [(''yoloMode'', JBool True)] \<and>
   getEffective
     (run [AppChange [(''yoloMode'', JBool False)], ProjectChange [(''yoloMode'', JBool True)]]
        modal0) ''yoloMode'' (JBool False) = JBool False"
  by (simp add: modal_defs view_defs)

text \<open>
  Claim C7, as the code has it. Resolution has no key schema and no \<open>UnknownKeyError\<close>. For
  every key that is not a name inherited from \<open>Object.prototype\<close>, recognized or not, and
  has no pending edit, the view is the snapshot's value for the key, or the caller's
  fallback where the snapshot has none, with the snapshot's source for the key, or
  \<open>'default'\<close> where it has none. So a key that is in neither buffer and not in the snapshot
  resolves to the fallback with the source \<open>'default'\<close>.
\<close>

theorem key_resolves_from_snapshot_or_fallback:
  assumes "key \<notin> set Object_prototype_names"
  shows "(map_of (pendingAppChanges s) key = None \<and>
          map_of (pendingProjectChanges s) key = None \<longrightarrow>
            effectiveView s key fallback =
              Inr (case snapshot_value s key of Some v \<Rightarrow> v | None \<Rightarrow> fallback,
                   case snapshot_source s key of Some src \<Rightarrow> src | None \<Rightarrow> SrcDefault)) \<and>
         (map_of (pendingAppChanges s) key = None \<and>
          map_of (pendingProjectChanges s) key = None \<and>
          snapshot_value s key = None \<and> snapshot_source s key = None \<longrightarrow>
            effectiveView s key fallback = Inr (fallback, SrcDefault))"
  by (simp add: effectiveView_def getEffective_def getSource_def)

text \<open>
  The theorem at a key that is no setting of the component, and at the setting \<open>yoloMode\<close>
  of the snapshot.
\<close>

theorem key_resolves_from_snapshot_or_fallback_witness:
  "''noSuchSetting'' \<notin> set Object_prototype_names \<and>
   map_of (pendingAppChanges modal0) ''noSuchSetting'' = None \<and>
   map_of (pendingProjectChanges modal0) ''noSuchSetting'' = None \<and>
   snapshot_value modal0 ''noSuchSetting'' = None \<and>
   snapshot_source modal0 ''noSuchSetting'' = None \<and>
   effectiveView modal0 ''noSuchSetting'' (JNum 7) = Inr (JNum 7, SrcDefault) \<and>
   ''yoloMode'' \<notin> set Object_prototype_names \<and>
   map_of (pendingAppChanges modal0) ''yoloMode'' = None \<and>
   map_of (pendingProjectChanges modal0) ''yoloMode'' = None \<and>
   effectiveView modal0 ''yoloMode'' (JBool True) = Inr (JBool False, SrcApp)"
proof -
  have n1: "''noSuchSetting'' \<notin> set Object_prototype_names"
    and n2: "''yoloMode'' \<notin> set Object_prototype_names"
    by (simp_all add: Object_prototype_names_def)
  have h: "map_of (pendingAppChanges modal0) ''noSuchSetting'' = None"
    "map_of (pendingProjectChanges modal0) ''noSuchSetting'' = None"
    "snapshot_value modal0 ''noSuchSetting'' = None"
    "snapshot_source modal0 ''noSuchSetting'' = None"
    by (simp_all add: modal_defs snapshot_value_def snapshot_source_def)
  have g: "map_of (pendingAppChanges modal0) ''yoloMode'' = None"
    "map_of (pendingProjectChanges modal0) ''yoloMode'' = None"
    "snapshot_value modal0 ''yoloMode'' = Some (JBool False)"
    "snapshot_source modal0 ''yoloMode'' = Some SrcApp"
    by (simp_all add: modal_defs snapshot_value_def snapshot_source_def)
  from key_resolves_from_snapshot_or_fallback [OF n1, where s = modal0 and fallback = "JNum 7"] h
  have a: "effectiveView modal0 ''noSuchSetting'' (JNum 7) = Inr (JNum 7, SrcDefault)"
    by blast
  from key_resolves_from_snapshot_or_fallback [OF n2, where s = modal0 and fallback = "JBool True"] g
  have b: "effectiveView modal0 ''yoloMode'' (JBool True) = Inr (JBool False, SrcApp)"
    by simp
  from n1 n2 h g a b show ?thesis by simp
qed

text \<open>
  The claim as written asks for \<open>UnknownKeyError\<close> at such a key; the view returns the
  fallback and \<open>'default'\<close>.
\<close>

theorem unknown_key_gets_fallback:
  "effectiveView modal0 ''noSuchSetting'' JNull = Inr (JNull, SrcDefault) \<and>
   effectiveView modal0 ''noSuchSetting'' JNull \<noteq> Inl UnknownKeyError"
  by (simp add: modal_defs view_defs)

text \<open>
  Claim C8, as the code has it. With no effective-settings snapshot the view still
  resolves, and never reports \<open>Unavailable\<close>. For every key that is not a name inherited from
  \<open>Object.prototype\<close> the source is \<open>'default'\<close>; the value is the caller's fallback where the
  key has no pending edit, and the buffered value where the key is pending in exactly one of
  the two buffers.
\<close>

theorem no_snapshot_uses_fallback:
  assumes "effectiveSettings s = None" and "key \<notin> set Object_prototype_names"
  shows "getSource s key = SrcDefault \<and>
         (map_of (pendingAppChanges s) key = None \<and>
          map_of (pendingProjectChanges s) key = None \<longrightarrow>
            effectiveView s key fallback = Inr (fallback, SrcDefault)) \<and>
         (map_of (pendingAppChanges s) key = Some v \<and>
          map_of (pendingProjectChanges s) key = None \<longrightarrow>
            effectiveView s key fallback = Inr (v, SrcDefault)) \<and>
         (map_of (pendingAppChanges s) key = None \<and>
          map_of (pendingProjectChanges s) key = Some v \<longrightarrow>
            effectiveView s key fallback = Inr (v, SrcDefault))"
proof -
  from assms(1) have "snapshot_value s key = None" and "snapshot_source s key = None"
    by (simp_all add: snapshot_value_def snapshot_source_def)
  then show ?thesis
    by (simp add: effectiveView_def getEffective_def getSource_def)
qed

text \<open>
  The theorem on the modal opened before the snapshot has arrived: with no pending edit,
  after an app-scope edit, and after a project-scope edit of \<open>testingAgentRatio\<close>.
\<close>

theorem no_snapshot_uses_fallback_witness:
  "effectiveSettings modal_loading = None \<and>
   ''testingAgentRatio'' \<notin> set Object_prototype_names \<and>
   map_of (pendingAppChanges modal_loading) ''testingAgentRatio'' = None \<and>
   map_of (pendingProjectChanges modal_loading) ''testingAgentRatio'' = None \<and>
   effectiveView modal_loading ''testingAgentRatio'' (JNum 1) = Inr (JNum 1, SrcDefault) \<and>
   effectiveSettings (handleAppChange [(''testingAgentRatio'', JNum 2)] modal_loading) = None \<and>
   map_of (pendingAppChanges (handleAppChange [(''testingAgentRatio'', JNum 2)] modal_loading))
     ''testingAgentRatio'' = Some (JNum 2) \<and>
   map_of (pendingProjectChanges (handleAppChange [(''testingAgentRatio'', JNum 2)] modal_loading))
     ''testingAgentRatio'' = None \<and>
   effectiveView (handleAppChange [(''testingAgentRatio'', JNum 2)] modal_loading)
     ''testingAgentRatio'' (JNum 1) = Inr (JNum 2, SrcDefault) \<and>
   effectiveSettings (handleProjectChange [(''testingAgentRatio'', JNum 3)] modal_loading) = None \<and>
   map_of (pendingAppChanges (handleProjectChange [(''testingAgentRatio'', JNum 3)] modal_loading))
     ''testingAgentRatio'' = None \<and>
   map_of (pendingProjectChanges (handleProjectChange [(''testingAgentRatio'', JNum 3)] modal_loading))
     ''testingAgentRatio'' = Some (JNum 3) \<and>
   effectiveView (handleProjectChange [(''testingAgentRatio'', JNum 3)] modal_loading)
     ''testingAgentRatio'' (JNum 1) = Inr (JNum 3, SrcDefault)"
proof -
  let ?k = "''testingAgentRatio''"
  let ?a = "handleAppChange [(?k, JNum 2)] modal_loading"
  let ?p = "handleProjectChange [(?k, JNum 3)] modal_loading"
  have n: "?k \<notin> set Object_prototype_names" by (simp add: Object_prototype_names_def)
  have e0: "effectiveSettings modal_loading = None"
    and a0: "map_of (pendingAppChanges modal_loading) ?k = None"
    and p0: "map_of (pendingProjectChanges modal_loading) ?k = None"
    by (simp_all add: modal_defs)
  have e1: "effectiveSettings ?a = None"
    and a1: "map_of (pendingAppChanges ?a) ?k = Some (JNum 2)"
    and p1: "map_of (pendingProjectChanges ?a) ?k = None"
    by (simp_all add: modal_defs)
  have e2: "effectiveSettings ?p = None"
    and a2: "map_of (pendingAppChanges ?p) ?k = None"
    and p2: "map_of (pendingProjectChanges ?p) ?k = Some (JNum 3)"
    by (simp_all add: modal_defs)
  from no_snapshot_uses_fallback [OF e0 n, where fallback = "JNum 1"] a0 p0
  have v0: "effectiveView modal_loading ?k (JNum 1) = Inr (JNum 1, SrcDefault)" by blast
  from no_snapshot_uses_fallback [OF e1 n, where v = "JNum 2" and fallback = "JNum 1"] a1 p1
  have v1: "effectiveView ?a ?k (JNum 1) = Inr (JNum 2, SrcDefault)" by blast
  from no_snapshot_uses_fallback [OF e2 n, where v = "JNum 3" and fallback = "JNum 1"] a2 p2
  have v2: "effectiveView ?p ?k (JNum 1) = Inr (JNum 3, SrcDefault)" by blast
  from n e0 a0 p0 v0 e1 a1 p1 v1 e2 a2 p2 v2 show ?thesis by blast
qed

text \<open>
  The claim as written asks for \<open>Unavailable\<close> there; the view shows the fallback \<open>false\<close>
  with the badge \<open>'default'\<close>.
\<close>

theorem no_snapshot_not_unavailable:
  "effectiveSettings modal_loading = None \<and>
   effectiveView modal_loading ''yoloMode'' (JBool False) = Inr (JBool False, SrcDefault) \<and>
   effectiveView modal_loading ''yoloMode'' (JBool False) \<noteq> Inl Unavailable"
  by (simp add: modal_defs view_defs)

subsection \<open>Cancel\<close>





subsection \<open>Save\<close>

lemma save_project_rejected:
  assumes "hasUnsavedProjectChanges s" and "projectName s = Some pname" and "pname \<noteq> []"
  shows "save_project False s =
           (Some StoreWriteError,
            s\<lparr>store_calls := store_calls s @ [UpdateProjectSettingsV2 pname (pendingProjectChanges s)],
              updateProject_status := Failed\<rparr>)"
  using assms by (simp add: save_project_def no_project_def updateProject_mutateAsync_def)

lemma save_app_rejected_keeps_buffers:
  assumes "hasUnsavedAppChanges s" and "\<not> updateApp_ok env"
  shows "fst (handleSave env s) = Some StoreWriteError \<and>
         pendingAppChanges (snd (handleSave env s)) = pendingAppChanges s \<and>
         pendingProjectChanges (snd (handleSave env s)) = pendingProjectChanges s"
  using assms by (simp add: handleSave_def updateApp_mutateAsync_def)

text \<open>
  Claim C4. When the store accepts the app-scope request of \<open>handleSave\<close> and rejects the
  project-scope one, the handler ends with the error, the app-scope buffer is empty, the
  project-scope buffer is as it was, and the requests sent are the app-scope buffer (where it
  had entries) and then the project-scope buffer: the entries removed from a buffer are the
  ones the store accepted.
\<close>

theorem save_partial_failure:
  assumes "updateApp_ok env" and "\<not> updateProject_ok env"
    and "hasUnsavedProjectChanges s" and "projectName s = Some pname" and "pname \<noteq> []"
  shows "fst (handleSave env s) = Some StoreWriteError \<and>
         pendingAppChanges (snd (handleSave env s)) = [] \<and>
         pendingProjectChanges (snd (handleSave env s)) = pendingProjectChanges s \<and>
         store_calls (snd (handleSave env s)) =
           store_calls s
           @ (if hasUnsavedAppChanges s then [UpdateAppSettingsV2 (pendingAppChanges s)] else [])
           @ [UpdateProjectSettingsV2 pname (pendingProjectChanges s)]"
proof (cases "hasUnsavedAppChanges s")
  case True
  let ?s1 = "(updateApp_mutateAsync True (pendingAppChanges s) s)\<lparr>pendingAppChanges := []\<rparr>"
  have hs: "handleSave env s = save_project False ?s1"
    using True assms(1,2) by (simp add: handleSave_def)
  have "hasUnsavedProjectChanges ?s1" "projectName ?s1 = Some pname"
    using assms(3,4) by (simp_all add: hasUnsavedProjectChanges_def updateApp_mutateAsync_def)
  from save_project_rejected [OF this assms(5)] hs True show ?thesis
    by (simp add: updateApp_mutateAsync_def)
next
  case False
  then have empty: "pendingAppChanges s = []" by (simp add: hasUnsavedAppChanges_def)
  have hs: "handleSave env s = save_project False s"
    using False assms(2) by (simp add: handleSave_def)
  from save_project_rejected [OF assms(3,4,5)] hs False empty show ?thesis by simp
qed

text \<open>
  The theorem with \<open>yoloMode\<close> pending in both scopes.
\<close>

theorem save_partial_failure_witness:
  "updateApp_ok \<lparr>updateApp_ok = True, updateProject_ok = False\<rparr> \<and>
   \<not> updateProject_ok \<lparr>updateApp_ok = True, updateProject_ok = False\<rparr> \<and>
   pendingAppChanges
     (run [AppChange [(''yoloMode'', JBool False)], ProjectChange [(''yoloMode'', JBool True)]]
        modal0) = [(''yoloMode'', JBool False)] \<and>
   fst (handleSave \<lparr>updateApp_ok = True, updateProject_ok = False\<rparr>
     (run [AppChange [(''yoloMode'', JBool False)], ProjectChange [(''yoloMode'', JBool True)]]
        modal0)) = Some StoreWriteError \<and>
   pendingAppChanges (snd (handleSave \<lparr>updateApp_ok = True, updateProject_ok = False\<rparr>
     (run [AppChange [(''yoloMode'', JBool False)], ProjectChange [(''yoloMode'', JBool True)]]
        modal0))) = [] \<and>
   pendingProjectChanges (snd (handleSave \<lparr>updateApp_ok = True, updateProject_ok = False\<rparr>
     (run [AppChange [(''yoloMode'', JBool False)], ProjectChange [(''yoloMode'', JBool True)]]
        modal0))) = [(''yoloMode'', JBool True)] \<and>
   store_calls (snd (handleSave \<lparr>updateApp_ok = True, updateProject_ok = False\<rparr>
     (run [AppChange [(''yoloMode'', JBool False)], ProjectChange [(''yoloMode'', JBool True)]]
        modal0))) =
     [UpdateAppSettingsV2 [(''yoloMode'', JBool False)],
      UpdateProjectSettingsV2 ''demo'' [(''yoloMode'', JBool True)]]"
proof -
  let ?env = "\<lparr>updateApp_ok = True, updateProject_ok = False\<rparr>"
  let ?s = "run [AppChange [(''yoloMode'', JBool False)],
                 ProjectChange [(''yoloMode'', JBool True)]] modal0"
  have h1: "updateApp_ok ?env" and h2: "\<not> updateProject_ok ?env" by simp_all
  have a: "pendingAppChanges ?s = [(''yoloMode'', JBool False)]"
    and p: "pendingProjectChanges ?s = [(''yoloMode'', JBool True)]"
    and c: "store_calls ?s = []"
    and h4: "projectName ?s = Some ''demo''"
    by (simp_all add: modal_defs)
  from p have h3: "hasUnsavedProjectChanges ?s" by (simp add: hasUnsavedProjectChanges_def)
  have h5: "''demo'' \<noteq> []" by simp
  from a have ua: "hasUnsavedAppChanges ?s" by (simp add: hasUnsavedAppChanges_def)
  from save_partial_failure [OF h1 h2 h3 h4 h5] a p c ua
  show ?thesis by simp
qed

text \<open>
  Claim C5. With both buffers empty, \<open>handleSave\<close> sends no request and changes nothing.
\<close>

theorem save_without_edits_sends_nothing:
  assumes "pendingAppChanges s = []" and "pendingProjectChanges s = []"
  shows "handleSave env s = (None, s) \<and> store_calls (snd (handleSave env s)) = store_calls s"
  using assms
  by (simp add: handleSave_def save_project_def hasUnsavedAppChanges_def
      hasUnsavedProjectChanges_def)

text \<open>
  The theorem on a modal with empty buffers and one earlier request in its log: the log
  is the same after the save.
\<close>

theorem save_without_edits_sends_nothing_witness:
  "pendingAppChanges modal_saving = [] \<and> pendingProjectChanges modal_saving = [] \<and>
   store_calls (snd (handleSave \<lparr>updateApp_ok = True, updateProject_ok = True\<rparr> modal_saving))
     = [UpdateAppSettingsV2 [(''celebrateOnComplete'', JBool False)]] \<and>
   handleSave \<lparr>updateApp_ok = True, updateProject_ok = True\<rparr> modal_saving
     = (None, modal_saving)"
proof -
  have h1: "pendingAppChanges modal_saving = []"
    and h2: "pendingProjectChanges modal_saving = []"
    and c: "store_calls modal_saving = [UpdateAppSettingsV2 [(''celebrateOnComplete'', JBool False)]]"
    by (simp_all add: modal_defs)
  from save_without_edits_sends_nothing
         [OF h1 h2, of "\<lparr>updateApp_ok = True, updateProject_ok = True\<rparr>"] h1 h2 c
  show ?thesis by simp
qed

subsection \<open>UI-only edits\<close>

text \<open>
  Claim C6, as the code has it. An app-scope edit of a UI-only key leaves both buffers, and
  so \<open>hasUnsavedChanges\<close>, as they were, and it is sent to the store at once provided no save
  is in flight. On every run of the component from its mounted state, the app-scope buffer
  holds no UI-only key.
\<close>

theorem ui_only_edit_written_not_buffered:
  "(key \<in> set UI_ONLY_SETTINGS \<longrightarrow>
      (\<not> isSaving s \<longrightarrow>
         store_calls (handleAppChange [(key, v)] s)
           = store_calls s @ [UpdateAppSettingsV2 [(key, v)]]) \<and>
      pendingAppChanges (handleAppChange [(key, v)] s) = pendingAppChanges s \<and>
      pendingProjectChanges (handleAppChange [(key, v)] s) = pendingProjectChanges s \<and>
      hasUnsavedChanges (handleAppChange [(key, v)] s) = hasUnsavedChanges s) \<and>
   keys_of (pendingAppChanges (run es (mounted opn pname snapshot))) \<inter> set UI_ONLY_SETTINGS
     = {}"
proof -
  have first: "(\<not> isSaving s \<longrightarrow>
         store_calls (handleAppChange [(key, v)] s)
           = store_calls s @ [UpdateAppSettingsV2 [(key, v)]]) \<and>
      pendingAppChanges (handleAppChange [(key, v)] s) = pendingAppChanges s \<and>
      pendingProjectChanges (handleAppChange [(key, v)] s) = pendingProjectChanges s \<and>
      hasUnsavedChanges (handleAppChange [(key, v)] s) = hasUnsavedChanges s"
    if "key \<in> set UI_ONLY_SETTINGS"
    using partition_single_ui [OF that, of v]
    by (simp add: handleAppChange_def updateApp_mutate_def hasUnsavedChanges_def
        hasUnsavedAppChanges_def hasUnsavedProjectChanges_def del: partition_changes.simps)
  have "agent_only (pendingAppChanges (mounted opn pname snapshot))"
    by (simp add: mounted_def agent_only_Nil)
  then have "agent_only (pendingAppChanges (run es (mounted opn pname snapshot)))"
    by (rule run_agent_only)
  then have second:
    "keys_of (pendingAppChanges (run es (mounted opn pname snapshot))) \<inter> set UI_ONLY_SETTINGS
       = {}"
    by (simp add: agent_only_keys)
  from first second show ?thesis by blast
qed

text \<open>
  The theorem at the toggle \<open>showDebugPanel\<close>, and at a run whose edit carries a UI-only
  and an agent key.
\<close>

theorem ui_only_edit_written_not_buffered_witness:
  "\<not> isSaving modal0 \<and> ''showDebugPanel'' \<in> set UI_ONLY_SETTINGS \<and>
   store_calls (handleAppChange [(''showDebugPanel'', JBool True)] modal0)
     = [UpdateAppSettingsV2 [(''showDebugPanel'', JBool True)]] \<and>
   pendingAppChanges (handleAppChange [(''showDebugPanel'', JBool True)] modal0) = [] \<and>
   pendingProjectChanges (handleAppChange [(''showDebugPanel'', JBool True)] modal0) = [] \<and>
   \<not> hasUnsavedChanges (handleAppChange [(''showDebugPanel'', JBool True)] modal0) \<and>
   pendingAppChanges
     (run [AppChange [(''theme'', JStr ''dark''), (''yoloMode'', JBool True)]]
        (mounted True (Some ''demo'') (Some snapshot0))) = [(''yoloMode'', JBool True)] \<and>
   keys_of (pendingAppChanges
     (run [AppChange [(''theme'', JStr ''dark''), (''yoloMode'', JBool True)]]
        (mounted True (Some ''demo'') (Some snapshot0)))) \<inter> set UI_ONLY_SETTINGS = {}"
proof -
  have h1: "\<not> isSaving modal0" and h2: "''showDebugPanel'' \<in> set UI_ONLY_SETTINGS"
    and c: "store_calls modal0 = []" and a: "pendingAppChanges modal0 = []"
    and p: "pendingProjectChanges modal0 = []" and u: "\<not> hasUnsavedChanges modal0"
    by (simp_all add: modal_defs)
  have r: "pendingAppChanges
     (run [AppChange [(''theme'', JStr ''dark''), (''yoloMode'', JBool True)]]
        (mounted True (Some ''demo'') (Some snapshot0))) = [(''yoloMode'', JBool True)]"
    by (simp add: modal_defs)
  from ui_only_edit_written_not_buffered
         [where s = modal0 and key = "''showDebugPanel''" and v = "JBool True"
            and es = "[AppChange [(''theme'', JStr ''dark''), (''yoloMode'', JBool True)]]"
            and opn = True and pname = "Some ''demo''" and snapshot = "Some snapshot0"]
       h1 h2 c a p u r
  show ?thesis by simp
qed

text \<open>
  The claim as written has every edit of a UI-only key sent to the store. An edit that
  arrives while an earlier request is pending is dropped: no request is sent for it.
\<close>

theorem ui_only_edit_dropped_while_saving:
  "isSaving modal_saving \<and> ''showDebugPanel'' \<in> set UI_ONLY_SETTINGS \<and>
   store_calls (handleAppChange [(''showDebugPanel'', JBool True)] modal_saving)
     = store_calls modal_saving \<and>
   UpdateAppSettingsV2 [(''showDebugPanel'', JBool True)]
     \<notin> set (store_calls (handleAppChange [(''showDebugPanel'', JBool True)] modal_saving))"
  by (simp add: modal_defs)

subsection \<open>Edits while a save is in flight\<close>

text \<open>
  Claim C9. While \<open>isSaving\<close> holds, \<open>handleAppChange\<close> and \<open>handleProjectChange\<close> return the
  state unchanged: no request is sent and neither buffer changes.
\<close>

theorem edits_ignored_while_saving:
  assumes "isSaving s"
  shows "handleAppChange upd s = s \<and> handleProjectChange upd' s = s \<and>
         store_calls (handleAppChange upd s) = store_calls s \<and>
         pendingAppChanges (handleAppChange upd s) = pendingAppChanges s \<and>
         pendingProjectChanges (handleAppChange upd s) = pendingProjectChanges s \<and>
         store_calls (handleProjectChange upd' s) = store_calls s \<and>
         pendingAppChanges (handleProjectChange upd' s) = pendingAppChanges s \<and>
         pendingProjectChanges (handleProjectChange upd' s) = pendingProjectChanges s"
  using assms by (simp add: handleAppChange_def handleProjectChange_def)

text \<open>
  The theorem on the modal whose earlier request is still pending.
\<close>

theorem edits_ignored_while_saving_witness:
  "isSaving modal_saving \<and>
   handleAppChange [(''yoloMode'', JBool True)] modal_saving = modal_saving \<and>
   handleProjectChange [(''testingAgentRatio'', JNum 3)] modal_saving = modal_saving"
proof -
  have h: "isSaving modal_saving" by (simp add: modal_defs)
  from edits_ignored_while_saving
         [OF h, of "[(''yoloMode'', JBool True)]" "[(''testingAgentRatio'', JNum 3)]"] h
  show ?thesis by simp
qed

subsection \<open>Closing the modal\<close>

text \<open>
  Claim C10. When the \<open>isOpen\<close> prop of an open modal becomes false, both buffers are
  emptied and no request is sent to the store, whatever the buffers held.
\<close>

theorem close_discards_buffers:
  assumes "isOpen s"
  shows "pendingAppChanges (setIsOpen False s) = [] \<and>
         pendingProjectChanges (setIsOpen False s) = [] \<and>
         store_calls (setIsOpen False s) = store_calls s"
  using assms by (simp add: setIsOpen_def isOpen_effect_def)

text \<open>
  The theorem on a modal with one unsaved edit per scope: both are gone after closing, and
  the request log is still empty.
\<close>

theorem close_discards_buffers_witness:
  "isOpen (run [AppChange [(''coderModel'', JStr ''m1'')],
                ProjectChange [(''yoloMode'', JBool True)]] modal0) \<and>
   pendingAppChanges (run [AppChange [(''coderModel'', JStr ''m1'')],
                ProjectChange [(''yoloMode'', JBool True)]] modal0)
     = [(''coderModel'', JStr ''m1'')] \<and>
   pendingProjectChanges (run [AppChange [(''coderModel'', JStr ''m1'')],
                ProjectChange [(''yoloMode'', JBool True)]] modal0)
     = [(''yoloMode'', JBool True)] \<and>
   pendingAppChanges (setIsOpen False (run [AppChange [(''coderModel'', JStr ''m1'')],
                ProjectChange [(''yoloMode'', JBool True)]] modal0)) = [] \<and>
   pendingProjectChanges (setIsOpen False (run [AppChange [(''coderModel'', JStr ''m1'')],
                ProjectChange [(''yoloMode'', JBool True)]] modal0)) = [] \<and>
   store_calls (setIsOpen False (run [AppChange [(''coderModel'', JStr ''m1'')],
                ProjectChange [(''yoloMode'', JBool True)]] modal0)) = []"
proof -
  let ?s = "run [AppChange [(''coderModel'', JStr ''m1'')],
                 ProjectChange [(''yoloMode'', JBool True)]] modal0"
  have h: "isOpen ?s"
    and a: "pendingAppChanges ?s = [(''coderModel'', JStr ''m1'')]"
    and p: "pendingProjectChanges ?s = [(''yoloMode'', JBool True)]"
    and c: "store_calls ?s = []"
    by (simp_all add: modal_defs)
  from close_discards_buffers [OF h] h a p c show ?thesis by simp
qed

end
